theory Spec2Isabelle
  imports Main "HOL-Library.AList"
begin

section \<open>Values handled by scripts/api\_server.py\<close>

text \<open>
  The server moves parsed JSON documents between its caller, the workflow engine and
  the storage service, and reads them with untyped dictionary access. Python
  strings are byte strings in UTF-8 here; a dict is an association list read through
  \<open>map_of\<close> (JSON objects parsed by Python have distinct keys). Fractional numbers
  do not occur in the fields the handlers read and are not represented.
\<close>

datatype json =
    JNull
  | JBool bool
  | JInt int
  | JStr string
  | JArr "json list"
  | JObj "(string \<times> json) list"

type_synonym bytes = string

text \<open>
  Exceptions. The interpreter's own errors come first; \<open>LibError\<close> is an exception
  raised inside a library (PIL, json, binascii, pydantic) with its message;
  \<open>Timeout\<close> is \<open>requests.exceptions.Timeout\<close> and \<open>RequestException\<close> any other
  failure of \<open>requests\<close>. The last three are the \<open>raise Exception(...)\<close> sites of the
  file, kept structured instead of formatted: upload failed (status, body text),
  response without address (the parsed response), generated image cannot be downloaded.
\<close>

datatype exn =
    KeyError string
  | TypeError
  | AttributeError
  | IndexError
  | FileNotFoundError
  | LibError string
  | Timeout
  | RequestException string
  | UploadFailed int string
  | NoUrlInResponse json
  | DownloadFailed

text \<open>Sequencing of a computation that may raise.\<close>

definition thn :: "exn + 'a \<Rightarrow> ('a \<Rightarrow> exn + 'b) \<Rightarrow> exn + 'b" where
  "thn m f = (case m of Inl e \<Rightarrow> Inl e | Inr x \<Rightarrow> f x)"

subsection \<open>The Python operations the handlers apply to JSON values\<close>

text \<open>Truth value of a parsed JSON value (\<open>if x:\<close>, \<open>not x\<close>, \<open>x or y\<close>).\<close>

fun py_truthy :: "json \<Rightarrow> bool" where
  "py_truthy JNull = False"
| "py_truthy (JBool b) = b"
| "py_truthy (JInt n) = (n \<noteq> 0)"
| "py_truthy (JStr s) = (s \<noteq> [])"
| "py_truthy (JArr xs) = (xs \<noteq> [])"
| "py_truthy (JObj kvs) = (kvs \<noteq> [])"

text \<open>\<open>sub in s\<close> on two strings: \<open>sub\<close> occurs in \<open>s\<close>.\<close>

fun is_substring :: "string \<Rightarrow> string \<Rightarrow> bool" where
  "is_substring sub [] = (sub = [])"
| "is_substring sub (c # cs) = (take (length sub) (c # cs) = sub \<or> is_substring sub cs)"

text \<open>
  \<open>k in v\<close> for a string \<open>k\<close>: key membership in a dict, element membership in a
  list (a string equals only the same string), substring in a string, TypeError on
  None, a bool or a number.
\<close>

fun py_in :: "string \<Rightarrow> json \<Rightarrow> exn + bool" where
  "py_in k (JObj kvs) = Inr (map_of kvs k \<noteq> None)"
| "py_in k (JArr xs) = Inr (JStr k \<in> set xs)"
| "py_in k (JStr s) = Inr (is_substring k s)"
| "py_in k JNull = Inl TypeError"
| "py_in k (JBool b) = Inl TypeError"
| "py_in k (JInt n) = Inl TypeError"

text \<open>\<open>v[k]\<close> for a string \<open>k\<close>: KeyError on a dict without the key, TypeError elsewhere.\<close>

fun py_getitem :: "json \<Rightarrow> string \<Rightarrow> exn + json" where
  "py_getitem (JObj kvs) k = (case map_of kvs k of None \<Rightarrow> Inl (KeyError k) | Some v \<Rightarrow> Inr v)"
| "py_getitem _ k = Inl TypeError"

text \<open>\<open>v.get(k, d)\<close>: only a dict has the method.\<close>

fun py_get :: "json \<Rightarrow> string \<Rightarrow> json \<Rightarrow> exn + json" where
  "py_get (JObj kvs) k d = Inr (case map_of kvs k of None \<Rightarrow> d | Some v \<Rightarrow> v)"
| "py_get _ k d = Inl AttributeError"

text \<open>
  \<open>v[0]\<close>: the first element of a list, the first character of a string (its lead byte
  and the continuation bytes that follow), KeyError on a dict (its keys are strings),
  TypeError on None, a bool or a number.
\<close>

definition first_char :: "string \<Rightarrow> string" where
  "first_char s = hd s # takeWhile (\<lambda>c. (128::nat) \<le> of_char c \<and> (of_char c :: nat) < 192) (tl s)"

fun py_index0 :: "json \<Rightarrow> exn + json" where
  "py_index0 (JArr xs) = (case xs of [] \<Rightarrow> Inl IndexError | x # _ \<Rightarrow> Inr x)"
| "py_index0 (JStr s) = (if s = [] then Inl IndexError else Inr (JStr (first_char s)))"
| "py_index0 (JObj kvs) = Inl (KeyError ''0'')"
| "py_index0 _ = Inl TypeError"

text \<open>\<open>v[k] = x\<close> for a string \<open>k\<close>: only a dict accepts it; the model returns the updated dict.\<close>

fun py_setitem :: "json \<Rightarrow> string \<Rightarrow> json \<Rightarrow> exn + json" where
  "py_setitem (JObj kvs) k x = Inr (JObj (AList.update k x kvs))"
| "py_setitem _ k x = Inl TypeError"

text \<open>Decimal rendering of an integer, as \<open>str\<close> and f-strings give it.\<close>

function show_nat :: "nat \<Rightarrow> string" where
  "show_nat n = (if n < 10 then [char_of (48 + n)] else show_nat (n div 10) @ [char_of (48 + n mod 10)])"
  by pat_completeness auto
termination
  by (relation "measure id") auto

definition show_int :: "int \<Rightarrow> string" where
  "show_int i = (if i < 0 then CHR ''-'' # show_nat (nat (- i)) else show_nat (nat i))"

text \<open>
  \<open>str(v)\<close>, which is what an f-string inserts. The rendering of a list or a dict
  (Python's \<open>repr\<close> of the container) is not computed here: it is the parameter \<open>rp\<close>.
\<close>

fun py_str :: "(json \<Rightarrow> string) \<Rightarrow> json \<Rightarrow> string" where
  "py_str rp JNull = ''None''"
| "py_str rp (JBool b) = (if b then ''True'' else ''False'')"
| "py_str rp (JInt n) = show_int n"
| "py_str rp (JStr s) = s"
| "py_str rp v = rp v"

section \<open>Workflow document: input image and seed\<close>

text \<open>
  Lines 229-240 and 341-352. \<open>workflow[node]["inputs"][field] = v\<close> guarded by
  \<open>if node in workflow\<close>. The assignment happens in place in the source; here the
  changed inner dict is put back along the path that was read.
\<close>

definition set_node_input :: "json \<Rightarrow> string \<Rightarrow> string \<Rightarrow> json \<Rightarrow> exn + json" where
  "set_node_input workflow node field v =
     thn (py_in node workflow) (\<lambda>present.
       if present then
         thn (py_getitem workflow node) (\<lambda>n.
         thn (py_getitem n ''inputs'') (\<lambda>inputs.
         thn (py_setitem inputs field v) (\<lambda>inputs'.
         thn (py_setitem n ''inputs'' inputs') (\<lambda>n'.
           py_setitem workflow node n'))))
       else Inr workflow)"

text \<open>
  \<open>random.randint(a, b)\<close> returns an integer of the closed range; \<open>r\<close> is the
  generator's raw draw.
\<close>

definition randint :: "int \<Rightarrow> int \<Rightarrow> nat \<Rightarrow> int" where
  "randint a b r = a + int r mod (b - a + 1)"

text \<open>\<open>seed if seed else random.randint(1, 2**32 - 1)\<close>: the test is on the truth value.\<close>

definition actual_seed :: "int option \<Rightarrow> nat \<Rightarrow> int" where
  "actual_seed seed r =
     (case seed of
        Some s \<Rightarrow> if s \<noteq> 0 then s else randint 1 (2 ^ 32 - 1) r
      | None \<Rightarrow> randint 1 (2 ^ 32 - 1) r)"

text \<open>The document that is submitted: node 78 gets the staged image name, node 115:3 the seed.\<close>

definition prepare_workflow :: "json \<Rightarrow> json \<Rightarrow> int option \<Rightarrow> nat \<Rightarrow> exn + json" where
  "prepare_workflow workflow input_image_filename seed r =
     thn (set_node_input workflow ''78'' ''image'' input_image_filename) (\<lambda>w1.
       set_node_input w1 ''115:3'' ''seed'' (JInt (actual_seed seed r)))"

section \<open>The outside world\<close>

text \<open>
  What \<open>requests\<close> hands back: a response with its status, body text, raw content and
  the result of \<open>response.json()\<close> (\<open>None\<close> when the body does not parse, where the
  call raises), or an exception raised by the call itself.
\<close>

record http_response =
  status_code :: int
  body_text :: string
  content :: bytes
  json_of :: "json option"

datatype http_outcome = Raises exn | Responds http_response

definition json_body :: "http_response \<Rightarrow> exn + json" where
  "json_body r = (case json_of r of None \<Rightarrow> Inl (LibError ''JSONDecodeError'') | Some j \<Rightarrow> Inr j)"

text \<open>
  Everything the handlers obtain from outside the file, as one record: configuration,
  the workflow file (\<open>load_paper_cutting_workflow\<close>, which raises when the file is
  missing), the libraries that are not modelled (PIL's open and save as PNG, base64
  decoding, the random generator's draw, \<open>uuid4\<close>, pydantic's validation of a non-string
  value for a string field, \<open>repr\<close> of containers), the clock reading used for a
  synthetic file name, and the answers of the engine and of the storage service. The
  answers met inside the polling loop are indexed by the number of the poll attempt,
  counted from 0. \<open>busy k\<close> is the time attempt \<open>k\<close> spends in its requests, in whole time
  units; the sleep between attempts lasts 3 units.
\<close>

record world =
  COMFYUI_URL :: string
  repr_of :: "json \<Rightarrow> string"
  workflow_file :: "exn + json"
  to_png :: "bytes \<Rightarrow> exn + bytes"
  now :: int
  b64decode :: "string \<Rightarrow> exn + bytes"
  random_draw :: nat
  uuid4 :: string
  validate_str :: "json \<Rightarrow> string option"
  post_upload_image :: "string \<Rightarrow> bytes \<Rightarrow> http_outcome"
  post_prompt :: "json \<Rightarrow> string \<Rightarrow> http_outcome"
  get_history :: "nat \<Rightarrow> string \<Rightarrow> http_outcome"
  get_view :: "nat \<Rightarrow> string \<Rightarrow> http_outcome"
  post_storage :: "nat \<Rightarrow> bytes \<Rightarrow> json \<Rightarrow> http_outcome"
  busy :: "nat \<Rightarrow> nat"

section \<open>Responses and failures of the handlers\<close>

record generate_response =
  success :: bool
  image_url :: "string option"
  prompt_id :: "string option"
  error :: "string option"

text \<open>
  The detail of an \<open>HTTPException\<close> is a text, or, for the handler's last
  \<open>except Exception as e\<close>, the fixed prefix followed by \<open>str(e)\<close>, kept as the exception.
\<close>

datatype detail = Text string | GenerationFailed exn

datatype http_exception = HTTPException (status: int) (detail: detail)

text \<open>The message literals of the source, as UTF-8 bytes.\<close>

definition msg_missing_image :: string where
  "msg_missing_image = [CHR 0xE7, CHR 0xBC, CHR 0xBA, CHR 0xE5, CHR 0xB0, CHR 0x91, CHR 0xE8, CHR 0xBE, CHR 0x93, CHR 0xE5, CHR 0x85, CHR 0xA5, CHR 0xE5, CHR 0x9B, CHR 0xBE, CHR 0xE7, CHR 0x89, CHR 0x87]"

definition msg_comfyui_error :: string where
  "msg_comfyui_error = ''ComfyUI '' @ [CHR 0xE9, CHR 0x94, CHR 0x99, CHR 0xE8, CHR 0xAF, CHR 0xAF] @ '': ''"

definition msg_no_prompt_id :: string where
  "msg_no_prompt_id = [CHR 0xE6, CHR 0x9C, CHR 0xAA, CHR 0xE8, CHR 0x83, CHR 0xBD, CHR 0xE8, CHR 0x8E, CHR 0xB7, CHR 0xE5, CHR 0x8F, CHR 0x96] @ '' prompt_id''"

definition msg_timed_out :: string where
  "msg_timed_out = [CHR 0xE7, CHR 0x94, CHR 0x9F, CHR 0xE6, CHR 0x88, CHR 0x90, CHR 0xE8, CHR 0xB6, CHR 0x85, CHR 0xE6, CHR 0x97, CHR 0xB6]"

text \<open>\<open>except Exception as e: raise HTTPException(status_code=500, ...)\<close>, lines 315-319 and 427-431.\<close>

definition internal_error :: "exn \<Rightarrow> http_exception" where
  "internal_error e = HTTPException 500 (GenerationFailed e)"

section \<open>Asset ingress (lines 72-133)\<close>

definition endswith :: "string \<Rightarrow> string \<Rightarrow> bool" where
  "endswith s suf = (length suf \<le> length s \<and> drop (length s - length suf) s = suf)"

text \<open>\<open>s.rsplit('.', 1)[0]\<close>: what precedes the last dot, the whole string when there is none.\<close>

definition rsplit_dot :: "string \<Rightarrow> string" where
  "rsplit_dot s =
     (if CHR ''.'' \<in> set s then rev (tl (dropWhile (\<lambda>c. c \<noteq> CHR ''.'') (rev s))) else s)"

definition staged_filename :: "world \<Rightarrow> string option \<Rightarrow> string" where
  "staged_filename w original_filename =
     (let synthetic = ''paper_cutting_'' @ show_int (now w) @ ''.png'';
          filename = (case original_filename of
                        None \<Rightarrow> synthetic
                      | Some f \<Rightarrow> if f \<noteq> [] then f else synthetic)
      in if \<not> endswith filename ''.png'' then rsplit_dot filename @ ''.png'' else filename)"

definition upload_binary_to_comfyui :: "world \<Rightarrow> bytes \<Rightarrow> string option \<Rightarrow> exn + json" where
  "upload_binary_to_comfyui w image_data original_filename =
     thn (to_png w image_data) (\<lambda>img_byte_arr.
       let filename = staged_filename w original_filename in
       case post_upload_image w filename img_byte_arr of
         Raises e \<Rightarrow> Inl e
       | Responds response \<Rightarrow>
           if status_code response = 200 then
             thn (json_body response) (\<lambda>result. py_get result ''name'' (JStr filename))
           else Inl (UploadFailed (status_code response) (body_text response)))"

text \<open>\<open>if ',' in base64_str: base64_str = base64_str.split(',', 1)[1]\<close>, lines 126-127.\<close>

definition strip_header :: "string \<Rightarrow> string" where
  "strip_header base64_str =
     (if CHR '','' \<in> set base64_str
      then tl (dropWhile (\<lambda>c. c \<noteq> CHR '','') base64_str)
      else base64_str)"

definition upload_base64_to_comfyui :: "world \<Rightarrow> string \<Rightarrow> exn + json" where
  "upload_base64_to_comfyui w base64_str =
     thn (b64decode w (strip_header base64_str)) (\<lambda>image_data.
       upload_binary_to_comfyui w image_data None)"

section \<open>Result publication (lines 136-155)\<close>

definition upload_to_remote_server :: "world \<Rightarrow> nat \<Rightarrow> bytes \<Rightarrow> json \<Rightarrow> exn + json" where
  "upload_to_remote_server w k image_data filename =
     (case post_storage w k image_data filename of
        Raises e \<Rightarrow> Inl e
      | Responds response \<Rightarrow>
          if status_code response = 200 then
            thn (json_body response) (\<lambda>result.
            thn (py_get result ''value'' JNull) (\<lambda>online_url.
              if py_truthy online_url then Inr online_url
              else Inl (NoUrlInResponse result)))
          else Inl (UploadFailed (status_code response) (body_text response)))"

section \<open>Submission and polling (lines 242-311 and 354-423)\<close>

text \<open>
  The two generate handlers contain the same text from the submission on; it is
  modelled once. Within one poll attempt the source first looks for the output of node
  60 in the history (lines 272-281), then downloads and publishes it (lines 283-303).
\<close>

record artifact =
  filename :: json
  subfolder :: json
  folder_type :: json

text \<open>
  Lines 272-281: \<open>Inr None\<close> when a test fails and the attempt falls through to the
  sleep, \<open>Inl e\<close> when a lookup raises.
\<close>

definition find_artifact :: "string \<Rightarrow> json \<Rightarrow> exn + artifact option" where
  "find_artifact pid history_data =
     thn (py_in pid history_data) (\<lambda>known.
       if known then
         thn (py_getitem history_data pid) (\<lambda>entry.
         thn (py_get entry ''outputs'' (JObj [])) (\<lambda>outputs.
         thn (py_in ''60'' outputs) (\<lambda>saved.
           if saved then
             thn (py_getitem outputs ''60'') (\<lambda>node.
             thn (py_get node ''images'' (JArr [])) (\<lambda>images.
               if py_truthy images then
                 thn (py_index0 images) (\<lambda>image0.
                 thn (py_get image0 ''filename'' JNull) (\<lambda>fname.
                 thn (py_get image0 ''subfolder'' (JStr [])) (\<lambda>sub.
                 thn (py_get image0 ''type'' (JStr ''output'')) (\<lambda>ftype.
                   Inr (Some \<lparr>filename = fname, subfolder = sub, folder_type = ftype\<rparr>)))))
               else Inr None))
           else Inr None)))
       else Inr None)"

text \<open>Lines 284-286.\<close>

definition view_url :: "world \<Rightarrow> artifact \<Rightarrow> string" where
  "view_url w a =
     COMFYUI_URL w @ ''/view?filename='' @ py_str (repr_of w) (filename a)
       @ ''&type='' @ py_str (repr_of w) (folder_type a)
       @ (if py_truthy (subfolder a) then ''&subfolder='' @ py_str (repr_of w) (subfolder a) else [])"

text \<open>Line 300.\<close>

definition proxy_url :: "world \<Rightarrow> artifact \<Rightarrow> string" where
  "proxy_url w a =
     ''http://localhost:8080/api/image/'' @ py_str (repr_of w) (filename a)
       @ ''?type='' @ py_str (repr_of w) (folder_type a)"

text \<open>
  \<open>GenerateResponse(success=True, image_url=url, prompt_id=prompt_id)\<close>: the model
  class declares \<open>image_url\<close> an optional string, so a value that is not a string goes
  through pydantic's validation, which raises when it rejects the value.
\<close>

definition make_response :: "world \<Rightarrow> json \<Rightarrow> string \<Rightarrow> exn + generate_response" where
  "make_response w url pid =
     (case url of
        JStr s \<Rightarrow> Inr \<lparr>success = True, image_url = Some s, prompt_id = Some pid, error = None\<rparr>
      | JNull \<Rightarrow> Inr \<lparr>success = True, image_url = None, prompt_id = Some pid, error = None\<rparr>
      | v \<Rightarrow> (case validate_str w v of
                None \<Rightarrow> Inl (LibError ''ValidationError'')
              | Some s \<Rightarrow> Inr \<lparr>success = True, image_url = Some s, prompt_id = Some pid, error = None\<rparr>))"

text \<open>
  Lines 288-303. The inner \<open>try\<close> covers the upload and the construction of the
  response; its \<open>except Exception\<close> answers with the proxy address.
\<close>

definition retrieve_and_publish :: "world \<Rightarrow> string \<Rightarrow> nat \<Rightarrow> artifact \<Rightarrow> exn + generate_response option" where
  "retrieve_and_publish w pid k a =
     (case get_view w k (view_url w a) of
        Raises e \<Rightarrow> Inl e
      | Responds img_response \<Rightarrow>
          if status_code img_response = 200 then
            (case thn (upload_to_remote_server w k (content img_response) (filename a))
                      (\<lambda>online_url. make_response w online_url pid) of
               Inr r \<Rightarrow> Inr (Some r)
             | Inl upload_err \<Rightarrow>
                 Inr (Some \<lparr>success = True, image_url = Some (proxy_url w a),
                            prompt_id = Some pid, error = None\<rparr>))
          else Inl DownloadFailed)"

text \<open>
  The body of the \<open>try\<close> of one loop iteration, lines 267-303: \<open>Inr (Some r)\<close> is
  \<open>return r\<close>, \<open>Inr None\<close> reaches the end of the body, \<open>Inl e\<close> raises \<open>e\<close>.
\<close>

definition poll_body :: "world \<Rightarrow> string \<Rightarrow> nat \<Rightarrow> exn + generate_response option" where
  "poll_body w pid k =
     (case get_history w k (COMFYUI_URL w @ ''/history/'' @ pid) of
        Raises e \<Rightarrow> Inl e
      | Responds history_response \<Rightarrow>
          if status_code history_response = 200 then
            thn (json_body history_response) (\<lambda>history_data.
            thn (find_artifact pid history_data) (\<lambda>found.
              case found of
                None \<Rightarrow> Inr None
              | Some a \<Rightarrow> retrieve_and_publish w pid k a))
          else Inr None)"

text \<open>
  The loop, lines 262-311. \<open>elapsed\<close> is \<open>time.time() - start_time\<close> at the loop test of
  attempt \<open>k\<close>. Both \<open>except\<close> clauses (Timeout, then Exception) only print, so an
  iteration that raises goes on to the sleep like one that found nothing.
\<close>

definition max_wait :: nat where
  "max_wait = 300"

function poll_loop :: "world \<Rightarrow> string \<Rightarrow> nat \<Rightarrow> nat \<Rightarrow> http_exception + generate_response" where
  "poll_loop w pid k elapsed =
     (if elapsed < max_wait then
        (case poll_body w pid k of
           Inr (Some r) \<Rightarrow> Inr r
         | Inr None \<Rightarrow> poll_loop w pid (Suc k) (elapsed + busy w k + 3)
         | Inl e \<Rightarrow> poll_loop w pid (Suc k) (elapsed + busy w k + 3))
      else Inl (HTTPException 408 (Text msg_timed_out)))"
  by pat_completeness auto
termination
  by (relation "measure (\<lambda>(w, pid, k, elapsed). max_wait - elapsed)") auto

text \<open>
  Lines 242-311. The job identifier is whatever JSON value the engine put under
  \<open>prompt_id\<close>; the loop is modelled for identifiers that are strings, and the result is
  \<open>None\<close> for a truthy identifier of another type, which this model does not follow.
\<close>

definition submit_and_poll :: "world \<Rightarrow> json \<Rightarrow> (http_exception + generate_response) option" where
  "submit_and_poll w workflow =
     (case post_prompt w workflow (uuid4 w) of
        Raises e \<Rightarrow> Some (Inl (internal_error e))
      | Responds response \<Rightarrow>
          if status_code response \<noteq> 200 then
            Some (Inl (HTTPException 500 (Text (msg_comfyui_error @ body_text response))))
          else
            (case thn (json_body response) (\<lambda>body. py_get body ''prompt_id'' JNull) of
               Inl e \<Rightarrow> Some (Inl (internal_error e))
             | Inr job_id \<Rightarrow>
                 if \<not> py_truthy job_id then
                   Some (Inl (HTTPException 500 (Text msg_no_prompt_id)))
                 else
                   (case job_id of
                      JStr pid \<Rightarrow> Some (poll_loop w pid 0 0)
                    | _ \<Rightarrow> None)))"

section \<open>The two generate handlers (lines 203-319 and 322-431)\<close>

definition generate_paper_cutting ::
  "world \<Rightarrow> bytes \<Rightarrow> string option \<Rightarrow> int option \<Rightarrow> (http_exception + generate_response) option" where
  "generate_paper_cutting w image_data image_filename seed =
     (case workflow_file w of
        Inl e \<Rightarrow> Some (Inl (internal_error e))
      | Inr workflow \<Rightarrow>
          if image_data = [] then Some (Inl (HTTPException 400 (Text msg_missing_image)))
          else
            (case thn (upload_binary_to_comfyui w image_data image_filename)
                      (\<lambda>input_image_filename.
                         prepare_workflow workflow input_image_filename seed (random_draw w)) of
               Inl e \<Rightarrow> Some (Inl (internal_error e))
             | Inr workflow' \<Rightarrow> submit_and_poll w workflow'))"

definition generate_paper_cutting_base64 ::
  "world \<Rightarrow> string \<Rightarrow> int option \<Rightarrow> (http_exception + generate_response) option" where
  "generate_paper_cutting_base64 w input_image_base64 seed =
     (case workflow_file w of
        Inl e \<Rightarrow> Some (Inl (internal_error e))
      | Inr workflow \<Rightarrow>
          if input_image_base64 = [] then Some (Inl (HTTPException 400 (Text msg_missing_image)))
          else
            (case thn (upload_base64_to_comfyui w input_image_base64)
                      (\<lambda>input_image_filename.
                         prepare_workflow workflow input_image_filename seed (random_draw w)) of
               Inl e \<Rightarrow> Some (Inl (internal_error e))
             | Inr workflow' \<Rightarrow> submit_and_poll w workflow'))"

section \<open>Vocabulary of the specification\<close>

text \<open>
  The image list of a job, in the words of the specification: the history is a mapping
  that holds the job identifier, whose entry has under \<open>outputs\<close> the output node 60,
  whose \<open>images\<close> is a list. It is empty when any of this is missing.
\<close>

definition image_list :: "string \<Rightarrow> json \<Rightarrow> json list" where
  "image_list pid history_data =
     (case history_data of
        JObj jobs \<Rightarrow>
          (case map_of jobs pid of
             Some (JObj entry) \<Rightarrow>
               (case map_of entry ''outputs'' of
                  Some (JObj outputs) \<Rightarrow>
                    (case map_of outputs ''60'' of
                       Some (JObj node) \<Rightarrow>
                         (case map_of node ''images'' of
                            Some (JArr images) \<Rightarrow> images
                          | _ \<Rightarrow> [])
                     | _ \<Rightarrow> [])
                | _ \<Rightarrow> [])
           | _ \<Rightarrow> [])
      | _ \<Rightarrow> [])"

text \<open>
  A qualifying poll response: the engine answered with status 200 and a history in which
  the job has a non-empty image list under output node 60.
\<close>

definition qualifying :: "string \<Rightarrow> http_outcome \<Rightarrow> bool" where
  "qualifying pid outcome =
     (case outcome of
        Raises e \<Rightarrow> False
      | Responds r \<Rightarrow>
          status_code r = 200 \<and>
          (case json_of r of None \<Rightarrow> False | Some history_data \<Rightarrow> image_list pid history_data \<noteq> []))"



text \<open>
  The job identifier of a submission response: the value under \<open>prompt_id\<close> of a body
  that is a JSON object, when it is there and not empty, null, zero or false.
\<close>

definition job_identifier :: "http_response \<Rightarrow> json option" where
  "job_identifier r =
     (case json_of r of
        Some (JObj body) \<Rightarrow>
          (case map_of body ''prompt_id'' of
             Some v \<Rightarrow> if py_truthy v then Some v else None
           | None \<Rightarrow> None)
      | _ \<Rightarrow> None)"

text \<open>
  The published address in a storage response: the value under \<open>value\<close> of a body that
  is a JSON object, when it is there and not empty, null, zero or false.
\<close>

definition published_url :: "http_response \<Rightarrow> json option" where
  "published_url r =
     (case json_of r of
        Some (JObj body) \<Rightarrow>
          (case map_of body ''value'' of
             Some v \<Rightarrow> if py_truthy v then Some v else None
           | None \<Rightarrow> None)
      | _ \<Rightarrow> None)"

text \<open>
  A publication failure: the call to the storage service raises, it answers with a
  status other than 200, or its answer carries no published address.
\<close>

definition publication_fails :: "http_outcome \<Rightarrow> bool" where
  "publication_fails outcome =
     (case outcome of
        Raises e \<Rightarrow> True
      | Responds r \<Rightarrow> (if status_code r = 200 then published_url r = None else True))"

section \<open>A concrete run\<close>

text \<open>
  The scenario of the specification's testable property 5: the engine issues the job
  identifier \<open>abc\<close>, the first two polls do not know the job, the third lists two images
  under node 60, the download succeeds and the storage service publishes the image.
  The variants below change one answer each.
\<close>

definition respond :: "int \<Rightarrow> string \<Rightarrow> json option \<Rightarrow> http_outcome" where
  "respond code body parsed =
     Responds \<lparr>status_code = code, body_text = body, content = body, json_of = parsed\<rparr>"

definition workflow_template :: json where
  "workflow_template =
     JObj [(''78'', JObj [(''class_type'', JStr ''LoadImage''),
                          (''inputs'', JObj [(''image'', JStr ''example.png'')])]),
           (''115:3'', JObj [(''class_type'', JStr ''KSampler''),
                             (''inputs'', JObj [(''seed'', JInt 7), (''steps'', JInt 4)])]),
           (''60'', JObj [(''class_type'', JStr ''SaveImage''),
                          (''inputs'', JObj [(''filename_prefix'', JStr ''ComfyUI'')])])]"

definition history_done :: json where
  "history_done =
     JObj [(''abc'', JObj [(''outputs'', JObj [(''60'', JObj [(''images'',
        JArr [JObj [(''filename'', JStr ''out.png''), (''subfolder'', JStr []),
                    (''type'', JStr ''output'')],
              JObj [(''filename'', JStr ''second.png''), (''subfolder'', JStr ''tmp''),
                    (''type'', JStr ''temp'')]])])])])]"

definition scenario :: world where
  "scenario =
     \<lparr>COMFYUI_URL = ''http://10.0.0.11:8188'',
      repr_of = (\<lambda>v. []),
      workflow_file = Inr workflow_template,
      to_png = (\<lambda>image_data. Inr image_data),
      now = 1700000000,
      b64decode = (\<lambda>s. Inr s),
      random_draw = 41,
      uuid4 = ''c0ffee'',
      validate_str = (\<lambda>v. None),
      post_upload_image = (\<lambda>name image_data. respond 200 [] (Some (JObj [(''name'', JStr name)]))),
      post_prompt = (\<lambda>workflow client_id. respond 200 [] (Some (JObj [(''prompt_id'', JStr ''abc'')]))),
      get_history = (\<lambda>k url. if k < 2 then respond 200 [] (Some (JObj []))
                               else respond 200 [] (Some history_done)),
      get_view = (\<lambda>k url. respond 200 ''PNG'' None),
      post_storage = (\<lambda>k image_data name.
                        respond 200 [] (Some (JObj [(''value'', JStr ''https://cdn/x.png'')]))),
      busy = (\<lambda>k. 1)\<rparr>"

text \<open>The engine never answers a poll in time.\<close>

definition scenario_silent :: world where
  "scenario_silent = scenario\<lparr>get_history := (\<lambda>k url. Raises Timeout)\<rparr>"

text \<open>The images are listed from the first poll on.\<close>

definition scenario_ready :: world where
  "scenario_ready = scenario\<lparr>get_history := (\<lambda>k url. respond 200 [] (Some history_done))\<rparr>"

text \<open>Every poll lists the images, and every download of the image is answered with 404.\<close>

definition scenario_no_download :: world where
  "scenario_no_download = scenario_ready\<lparr>get_view := (\<lambda>k url. respond 404 ''not found'' None)\<rparr>"

text \<open>The storage service is down; it answers 200 with an empty address; it answers 200 without one.\<close>

definition scenario_storage_down :: world where
  "scenario_storage_down = scenario\<lparr>post_storage := (\<lambda>k image_data name. respond 503 ''down'' None)\<rparr>"

definition scenario_empty_value :: world where
  "scenario_empty_value =
     scenario\<lparr>post_storage := (\<lambda>k image_data name. respond 200 [] (Some (JObj [(''value'', JStr [])])))\<rparr>"

definition scenario_no_value :: world where
  "scenario_no_value =
     scenario\<lparr>post_storage := (\<lambda>k image_data name. respond 200 [] (Some (JObj [(''code'', JInt 0)])))\<rparr>"

text \<open>The engine refuses the submission; it accepts it without naming a job.\<close>

definition scenario_refused :: world where
  "scenario_refused =
     scenario\<lparr>post_prompt := (\<lambda>workflow client_id. respond 500 ''out of memory'' None)\<rparr>"

definition scenario_no_job :: world where
  "scenario_no_job =
     scenario\<lparr>post_prompt := (\<lambda>workflow client_id. respond 200 [] (Some (JObj [(''node_errors'', JObj [])])))\<rparr>"

text \<open>Reading back \<open>workflow["115:3"]["inputs"]["seed"]\<close> from a document.\<close>

definition seed_field :: "json \<Rightarrow> exn + json" where
  "seed_field workflow =
     thn (py_getitem workflow ''115:3'') (\<lambda>n.
     thn (py_getitem n ''inputs'') (\<lambda>inputs. py_getitem inputs ''seed''))"

section \<open>Properties\<close>

subsection \<open>Basic facts\<close>

declare poll_loop.simps [simp del]

lemma strip_header_comma:
  assumes "CHR '','' \<notin> set pre"
  shows "strip_header (pre @ CHR '','' # rest) = rest"
proof -
  from assms have "dropWhile (\<lambda>c. c \<noteq> CHR '','') (pre @ CHR '','' # rest) = CHR '','' # rest"
    by (induction pre) auto
  then show ?thesis by (simp add: strip_header_def)
qed

lemma strip_header_none: "CHR '','' \<notin> set s \<Longrightarrow> strip_header s = s"
  by (simp add: strip_header_def)

text \<open>
  Up to the submission both handlers only load the workflow, stage the image and
  prepare the document; what they answer from there on is what \<open>submit_and_poll\<close>
  answers for the prepared document.
\<close>

lemma generate_paper_cutting_submits:
  assumes "workflow_file w = Inr workflow" and "image_data \<noteq> []"
    and "upload_binary_to_comfyui w image_data image_filename = Inr name"
    and "prepare_workflow workflow name seed (random_draw w) = Inr doc"
  shows "generate_paper_cutting w image_data image_filename seed = submit_and_poll w doc"
  using assms by (simp add: generate_paper_cutting_def thn_def)

lemma generate_paper_cutting_base64_submits:
  assumes "workflow_file w = Inr workflow" and "input_image_base64 \<noteq> []"
    and "upload_base64_to_comfyui w input_image_base64 = Inr name"
    and "prepare_workflow workflow name seed (random_draw w) = Inr doc"
  shows "generate_paper_cutting_base64 w input_image_base64 seed = submit_and_poll w doc"
  using assms by (simp add: generate_paper_cutting_base64_def thn_def)

subsection \<open>Base64 ingress\<close>

text \<open>
  Claim C10. When the base64 input contains a comma, what is handed to the base64
  decoder is exactly what follows the first comma, whatever precedes it (\<open>pre\<close> is any
  text without a comma, not only a data-URI header); an input without a comma is decoded
  whole. The decoded bytes then go to the binary upload with no file name.
\<close>

theorem base64_prefix_discarded:
  "(CHR '','' \<notin> set pre \<longrightarrow>
      upload_base64_to_comfyui w (pre @ CHR '','' # rest) =
        thn (b64decode w rest) (\<lambda>image_data. upload_binary_to_comfyui w image_data None))
   \<and> (CHR '','' \<notin> set s \<longrightarrow>
      upload_base64_to_comfyui w s =
        thn (b64decode w s) (\<lambda>image_data. upload_binary_to_comfyui w image_data None))"
  by (simp add: upload_base64_to_comfyui_def strip_header_comma strip_header_none)

theorem base64_prefix_discarded_witness:
  "upload_base64_to_comfyui scenario (''not a header'' @ CHR '','' # ''QUJD,QUJD'') =
     thn (b64decode scenario ''QUJD,QUJD'')
         (\<lambda>image_data. upload_binary_to_comfyui scenario image_data None)
   \<and> upload_base64_to_comfyui scenario ''QUJD'' =
     thn (b64decode scenario ''QUJD'')
         (\<lambda>image_data. upload_binary_to_comfyui scenario image_data None)"
  using base64_prefix_discarded [of "''not a header''" scenario "''QUJD,QUJD''" "''QUJD''"]
  by simp

subsection \<open>The prepared workflow document\<close>



lemma set_node_input_written:
  assumes "map_of nodes node = Some (JObj n)" and "map_of n ''inputs'' = Some (JObj inputs)"
  shows "set_node_input (JObj nodes) node field v =
           Inr (JObj (AList.update node
                  (JObj (AList.update ''inputs'' (JObj (AList.update field v inputs)) n)) nodes))"
  using assms by (simp add: set_node_input_def thn_def)

lemma actual_seed_supplied: "s \<noteq> 0 \<Longrightarrow> actual_seed (Some s) r = s"
  by (simp add: actual_seed_def)

lemma randint_range: "a \<le> b \<Longrightarrow> a \<le> randint a b r \<and> randint a b r \<le> b"
  unfolding randint_def
  using pos_mod_bound [of "b - a + 1" "int r"] pos_mod_sign [of "b - a + 1" "int r"] by linarith

lemma actual_seed_absent: "1 \<le> actual_seed None r \<and> actual_seed None r \<le> 2 ^ 32 - 1"
  using randint_range [of 1 "2 ^ 32 - 1" r] by (simp add: actual_seed_def)

lemma seed_field_written:
  assumes "map_of nodes ''115:3'' = Some (JObj n)" and "map_of n ''inputs'' = Some (JObj inputs)"
  shows "thn (set_node_input (JObj nodes) ''115:3'' ''seed'' v) seed_field = Inr v"
  using assms by (simp add: set_node_input_written thn_def seed_field_def update_conv')



text \<open>
  Claim C1, at the input the code gets wrong. A caller who supplies the seed 0 does not
  get 0 submitted: the test \<open>seed if seed else ...\<close> takes 0 for no seed, and the seed
  field of the submitted document holds the random value (42 for the draw 41 here),
  which is never 0. A supplied seed other than 0 (here 5) is written as it is; see
  \<open>actual_seed_supplied\<close>, and \<open>actual_seed_absent\<close> for the range without a seed.
\<close>

theorem zero_seed_replaced:
  "thn (prepare_workflow workflow_template (JStr ''in.png'') (Some 0) 41) seed_field = Inr (JInt 42)
   \<and> thn (prepare_workflow workflow_template (JStr ''in.png'') (Some 5) 41) seed_field = Inr (JInt 5)
   \<and> actual_seed (Some 0) r = randint 1 (2 ^ 32 - 1) r
   \<and> actual_seed (Some 0) r \<noteq> 0"
proof -
  have "actual_seed (Some 0) r \<noteq> 0"
    using randint_range [of 1 "2 ^ 32 - 1" r] by (simp add: actual_seed_def)
  moreover have "actual_seed (Some 0) 41 = 42" and "actual_seed (Some 5) 41 = 5"
    by (simp_all add: actual_seed_def randint_def)
  ultimately show ?thesis
    by (simp add: prepare_workflow_def set_node_input_def workflow_template_def thn_def seed_field_def)
       (simp add: actual_seed_def)
qed

subsection \<open>Submission\<close>

text \<open>
  Claim C5. When the engine answers the submission with a status other than 200, the
  handlers raise a 500 whose detail is the fixed prefix followed by the engine's
  response body. When it answers 200 without a job identifier, they raise a 500 as
  well: with the text of line 257 when the body is a JSON object, and through the last
  \<open>except\<close> when the body does not parse or is not an object. No poll is made in either
  case.
\<close>

theorem submission_failure_is_500:
  assumes "post_prompt w workflow (uuid4 w) = Responds r"
  shows "(status_code r \<noteq> 200 \<longrightarrow>
            submit_and_poll w workflow =
              Some (Inl (HTTPException 500 (Text (msg_comfyui_error @ body_text r)))))
     \<and> (status_code r = 200 \<and> job_identifier r = None \<longrightarrow>
            submit_and_poll w workflow = Some (Inl (HTTPException 500 (Text msg_no_prompt_id)))
          \<or> submit_and_poll w workflow =
               Some (Inl (HTTPException 500 (GenerationFailed (LibError ''JSONDecodeError''))))
          \<or> submit_and_poll w workflow =
               Some (Inl (HTTPException 500 (GenerationFailed AttributeError))))"
  using assms
  by (auto simp: submit_and_poll_def job_identifier_def json_body_def thn_def internal_error_def
           split: option.splits json.splits if_splits)

theorem submission_failure_is_500_witness:
  "submit_and_poll scenario_refused workflow_template =
     Some (Inl (HTTPException 500 (Text (msg_comfyui_error @ ''out of memory''))))
   \<and> submit_and_poll scenario_no_job workflow_template =
     Some (Inl (HTTPException 500 (Text msg_no_prompt_id)))"
proof -
  let ?r = "\<lparr>status_code = 500, body_text = ''out of memory'', content = ''out of memory'', json_of = None\<rparr>"
  let ?n = "\<lparr>status_code = 200, body_text = [], content = [],
              json_of = Some (JObj [(''node_errors'', JObj [])])\<rparr>"
  have r1: "post_prompt scenario_refused workflow_template (uuid4 scenario_refused) = Responds ?r"
    by (simp add: scenario_refused_def scenario_def respond_def)
  have n1: "post_prompt scenario_no_job workflow_template (uuid4 scenario_no_job) = Responds ?n"
    by (simp add: scenario_no_job_def scenario_def respond_def)
  have n2: "job_identifier ?n = None"
    by (simp add: job_identifier_def)
  have n3: "submit_and_poll scenario_no_job workflow_template
              \<noteq> Some (Inl (HTTPException 500 (GenerationFailed e)))" for e
    by (simp add: submit_and_poll_def scenario_no_job_def scenario_def respond_def json_body_def thn_def)
  from submission_failure_is_500 [OF r1] submission_failure_is_500 [OF n1] n2 n3
  show ?thesis by simp
qed

subsection \<open>The polling loop\<close>

lemma poll_loop_step:
  "elapsed < max_wait \<Longrightarrow> \<forall>r. poll_body w pid k \<noteq> Inr (Some r) \<Longrightarrow>
   poll_loop w pid k elapsed = poll_loop w pid (Suc k) (elapsed + busy w k + 3)"
  by (subst poll_loop.simps) (auto split: sum.splits option.splits)

lemma poll_loop_return:
  "elapsed < max_wait \<Longrightarrow> poll_body w pid k = Inr (Some r) \<Longrightarrow> poll_loop w pid k elapsed = Inr r"
  by (subst poll_loop.simps) simp

lemma poll_loop_expired:
  "\<not> elapsed < max_wait \<Longrightarrow> poll_loop w pid k elapsed = Inl (HTTPException 408 (Text msg_timed_out))"
  by (subst poll_loop.simps) simp

lemma poll_loop_never_returns:
  "3 * k \<le> elapsed \<Longrightarrow> \<forall>j<100. \<forall>r. poll_body w pid j \<noteq> Inr (Some r) \<Longrightarrow>
   poll_loop w pid k elapsed = Inl (HTTPException 408 (Text msg_timed_out))"
proof (induction "max_wait - elapsed" arbitrary: k elapsed rule: less_induct)
  case less
  show ?case
  proof (cases "elapsed < max_wait")
    case False
    then show ?thesis by (rule poll_loop_expired)
  next
    case True
    with less.prems(1) have "k < 100" by (simp add: max_wait_def)
    with less.prems(2) have nr: "\<forall>r. poll_body w pid k \<noteq> Inr (Some r)" by blast
    have "poll_loop w pid (Suc k) (elapsed + busy w k + 3) = Inl (HTTPException 408 (Text msg_timed_out))"
      using True less.prems by (intro less.hyps) auto
    with True nr show ?thesis by (simp add: poll_loop_step)
  qed
qed


lemma find_artifact_none:
  assumes "image_list pid history_data = []"
  shows "find_artifact pid history_data \<noteq> Inr (Some a)"
  using assms
  by (auto simp: image_list_def find_artifact_def thn_def
           split: json.splits option.splits if_splits list.splits)

lemma poll_body_found:
  assumes "get_history w k (COMFYUI_URL w @ ''/history/'' @ pid) = Responds h"
    and "status_code h = 200" and "json_of h = Some history_data"
    and "find_artifact pid history_data = Inr (Some a)"
  shows "poll_body w pid k = retrieve_and_publish w pid k a"
  using assms by (simp add: poll_body_def json_body_def thn_def)

lemma poll_body_not_qualifying:
  assumes "\<not> qualifying pid (get_history w k (COMFYUI_URL w @ ''/history/'' @ pid))"
  shows "poll_body w pid k \<noteq> Inr (Some r)"
proof (cases "get_history w k (COMFYUI_URL w @ ''/history/'' @ pid)")
  case (Raises e)
  then show ?thesis by (simp add: poll_body_def)
next
  case (Responds h)
  show ?thesis
  proof (cases "status_code h = 200 \<and> json_of h \<noteq> None")
    case False
    with Responds show ?thesis by (auto simp: poll_body_def json_body_def thn_def)
  next
    case True
    then obtain history_data where hd: "json_of h = Some history_data" by auto
    with assms Responds True have "image_list pid history_data = []"
      by (simp add: qualifying_def)
    then have "\<forall>a. find_artifact pid history_data \<noteq> Inr (Some a)"
      by (simp add: find_artifact_none)
    with Responds True hd show ?thesis
      by (auto simp: poll_body_def json_body_def thn_def split: sum.splits option.splits)
  qed
qed

text \<open>
  Claim C2. The sleep alone takes 3 of the 300 time units, so at most the attempts
  0 to 99 are made. When none of them gets a qualifying response, the loop ends with the
  408 exception, and so does the handler once the submission has returned the job
  identifier. An attempt whose request raises (a timeout or any other error) only moves
  the loop on to the next attempt: it ends nothing by itself.
\<close>

theorem no_qualifying_response_times_out:
  "((\<forall>j<100. \<not> qualifying pid (get_history w j (COMFYUI_URL w @ ''/history/'' @ pid))) \<longrightarrow>
      poll_loop w pid 0 0 = Inl (HTTPException 408 (Text msg_timed_out)))
   \<and> (elapsed < max_wait \<and> get_history w k (COMFYUI_URL w @ ''/history/'' @ pid) = Raises e \<longrightarrow>
      poll_loop w pid k elapsed = poll_loop w pid (Suc k) (elapsed + busy w k + 3))
   \<and> ((\<forall>j<100. \<not> qualifying pid (get_history w j (COMFYUI_URL w @ ''/history/'' @ pid)))
        \<and> post_prompt w workflow (uuid4 w) = Responds r \<and> status_code r = 200
        \<and> job_identifier r = Some (JStr pid) \<longrightarrow>
      submit_and_poll w workflow = Some (Inl (HTTPException 408 (Text msg_timed_out))))"
proof (intro conjI impI)
  assume quiet: "\<forall>j<100. \<not> qualifying pid (get_history w j (COMFYUI_URL w @ ''/history/'' @ pid))"
  then have "\<forall>j<100. \<forall>r. poll_body w pid j \<noteq> Inr (Some r)"
    by (simp add: poll_body_not_qualifying)
  then show "poll_loop w pid 0 0 = Inl (HTTPException 408 (Text msg_timed_out))"
    by (intro poll_loop_never_returns) simp_all
next
  assume "elapsed < max_wait \<and> get_history w k (COMFYUI_URL w @ ''/history/'' @ pid) = Raises e"
  then show "poll_loop w pid k elapsed = poll_loop w pid (Suc k) (elapsed + busy w k + 3)"
    by (intro poll_loop_step) (simp_all add: poll_body_def)
next
  assume h: "(\<forall>j<100. \<not> qualifying pid (get_history w j (COMFYUI_URL w @ ''/history/'' @ pid)))
        \<and> post_prompt w workflow (uuid4 w) = Responds r \<and> status_code r = 200
        \<and> job_identifier r = Some (JStr pid)"
  then have "\<forall>j<100. \<forall>r. poll_body w pid j \<noteq> Inr (Some r)"
    by (simp add: poll_body_not_qualifying)
  then have "poll_loop w pid 0 0 = Inl (HTTPException 408 (Text msg_timed_out))"
    by (intro poll_loop_never_returns) simp_all
  moreover from h have "submit_and_poll w workflow = Some (poll_loop w pid 0 0)"
    by (auto simp: submit_and_poll_def job_identifier_def json_body_def thn_def
             split: option.splits json.splits if_splits)
  ultimately show "submit_and_poll w workflow = Some (Inl (HTTPException 408 (Text msg_timed_out)))"
    by simp
qed

lemma scenario_silent_quiet:
  "\<not> qualifying pid (get_history scenario_silent j url)"
  by (simp add: scenario_silent_def scenario_def qualifying_def)

theorem no_qualifying_response_times_out_witness:
  "poll_loop scenario_silent ''abc'' 0 0 = Inl (HTTPException 408 (Text msg_timed_out))
   \<and> poll_loop scenario_silent ''abc'' 5 20 = poll_loop scenario_silent ''abc'' 6 24
   \<and> submit_and_poll scenario_silent workflow_template
        = Some (Inl (HTTPException 408 (Text msg_timed_out)))"
  using no_qualifying_response_times_out
          [of "''abc''" scenario_silent 20 5 Timeout workflow_template
              "\<lparr>status_code = 200, body_text = [], content = [],
                json_of = Some (JObj [(''prompt_id'', JStr ''abc'')])\<rparr>"]
  by (simp add: scenario_silent_quiet)
     (simp add: scenario_silent_def scenario_def respond_def max_wait_def job_identifier_def)

subsection \<open>Retrieval and publication\<close>

lemma upload_fails:
  assumes "publication_fails (post_storage w k image_data name)"
  shows "\<exists>e. upload_to_remote_server w k image_data name = Inl e"
  using assms
  by (auto simp: publication_fails_def published_url_def upload_to_remote_server_def
                 json_body_def thn_def
           split: http_outcome.splits option.splits json.splits if_splits)

lemma retrieve_downloaded:
  assumes "get_view w k (view_url w a) = Responds img" and "status_code img = 200"
  shows "retrieve_and_publish w pid k a =
     (case thn (upload_to_remote_server w k (content img) (filename a))
                      (\<lambda>online_url. make_response w online_url pid) of
               Inr r \<Rightarrow> Inr (Some r)
             | Inl upload_err \<Rightarrow>
                 Inr (Some \<lparr>success = True, image_url = Some (proxy_url w a),
                            prompt_id = Some pid, error = None\<rparr>))"
  using assms by (simp add: retrieve_and_publish_def)



lemma retrieve_not_downloaded:
  assumes "get_view w k (view_url w a) = Responds img" and "status_code img \<noteq> 200"
  shows "retrieve_and_publish w pid k a = Inl DownloadFailed"
  using assms by (simp add: retrieve_and_publish_def)

lemma history_done_artifact:
  "find_artifact ''abc'' history_done =
     Inr (Some \<lparr>filename = JStr ''out.png'', subfolder = JStr [], folder_type = JStr ''output''\<rparr>)"
  by (simp add: find_artifact_def history_done_def thn_def)

lemma scenario_no_download_body:
  "poll_body scenario_no_download ''abc'' j = Inl DownloadFailed"
  by (simp add: poll_body_def scenario_no_download_def scenario_ready_def scenario_def
                respond_def json_body_def thn_def find_artifact_def history_done_def
                retrieve_and_publish_def)

lemma scenario_no_download_loop:
  "poll_loop scenario_no_download ''abc'' 0 0 = Inl (HTTPException 408 (Text msg_timed_out))"
  by (intro poll_loop_never_returns) (simp_all add: scenario_no_download_body)




text \<open>
  Claim C4, at the input the code gets wrong. The engine lists the images on every poll
  and answers every download with 404. The \<open>raise Exception\<close> of line 303 stands inside
  the \<open>try\<close> of the loop, whose \<open>except Exception\<close> only prints; the caller receives the
  408 of the spent wait budget and never a 500.
\<close>

theorem download_failure_absorbed:
  "generate_paper_cutting scenario_no_download ''image bytes'' (Some ''photo.jpg'') (Some 42)
     = Some (Inl (HTTPException 408 (Text msg_timed_out)))"
proof -
  have "submit_and_poll scenario_no_download doc = Some (poll_loop scenario_no_download ''abc'' 0 0)" for doc
    by (simp add: submit_and_poll_def scenario_no_download_def scenario_ready_def scenario_def
                  respond_def json_body_def thn_def)
  then show ?thesis
    by (simp add: generate_paper_cutting_def scenario_no_download_loop)
       (simp add: scenario_no_download_def scenario_ready_def scenario_def respond_def
                  upload_binary_to_comfyui_def staged_filename_def endswith_def rsplit_dot_def
                  json_body_def thn_def prepare_workflow_def set_node_input_def workflow_template_def)
qed

text \<open>
  Claim C6. Once the artifact of an attempt has been downloaded, a publication failure
  (the call raises, the storage service answers with another status than 200, or its
  answer carries no published address) does not fail the request: the loop returns a
  success response whose address is the proxy address built from the file name and the
  folder type of the artifact.
\<close>

theorem publication_failure_falls_back:
  assumes "elapsed < max_wait"
    and "get_history w k (COMFYUI_URL w @ ''/history/'' @ pid) = Responds h"
    and "status_code h = 200"
    and "json_of h = Some history_data"
    and "find_artifact pid history_data = Inr (Some a)"
    and "get_view w k (view_url w a) = Responds img"
    and "status_code img = 200"
    and "publication_fails (post_storage w k (content img) (filename a))"
  shows "poll_loop w pid k elapsed =
           Inr \<lparr>success = True,
                image_url = Some (''http://localhost:8080/api/image/''
                                    @ py_str (repr_of w) (filename a)
                                    @ ''?type='' @ py_str (repr_of w) (folder_type a)),
                prompt_id = Some pid, error = None\<rparr>"
proof -
  from assms(8) obtain e where "upload_to_remote_server w k (content img) (filename a) = Inl e"
    using upload_fails by blast
  with assms(6,7) have "retrieve_and_publish w pid k a =
      Inr (Some \<lparr>success = True, image_url = Some (proxy_url w a), prompt_id = Some pid, error = None\<rparr>)"
    by (simp add: retrieve_downloaded thn_def)
  with assms(2-5) have "poll_body w pid k =
      Inr (Some \<lparr>success = True, image_url = Some (proxy_url w a), prompt_id = Some pid, error = None\<rparr>)"
    by (simp add: poll_body_found)
  with assms(1) show ?thesis
    by (simp add: poll_loop_return proxy_url_def)
qed

theorem publication_failure_falls_back_witness:
  "poll_loop scenario_storage_down ''abc'' 2 8 =
     Inr \<lparr>success = True, image_url = Some ''http://localhost:8080/api/image/out.png?type=output'',
          prompt_id = Some ''abc'', error = None\<rparr>
   \<and> poll_loop scenario_no_value ''abc'' 2 8 =
     Inr \<lparr>success = True, image_url = Some ''http://localhost:8080/api/image/out.png?type=output'',
          prompt_id = Some ''abc'', error = None\<rparr>"
proof -
  let ?h = "\<lparr>status_code = 200, body_text = [], content = [], json_of = Some history_done\<rparr>"
  let ?img = "\<lparr>status_code = 200, body_text = ''PNG'', content = ''PNG'', json_of = None\<rparr>"
  let ?a = "\<lparr>filename = JStr ''out.png'', subfolder = JStr [], folder_type = JStr ''output''\<rparr>"
  have t: "(8::nat) < max_wait" by (simp add: max_wait_def)
  have h2: "status_code ?h = 200" and h3: "json_of ?h = Some history_done"
    and i2: "status_code ?img = 200" by simp_all
  have d1: "get_history scenario_storage_down 2
              (COMFYUI_URL scenario_storage_down @ ''/history/'' @ ''abc'') = Responds ?h"
    and d2: "get_view scenario_storage_down 2 (view_url scenario_storage_down ?a) = Responds ?img"
    and d3: "publication_fails (post_storage scenario_storage_down 2 (content ?img) (filename ?a))"
    by (simp_all add: scenario_storage_down_def scenario_def respond_def publication_fails_def)
  have n1: "get_history scenario_no_value 2
              (COMFYUI_URL scenario_no_value @ ''/history/'' @ ''abc'') = Responds ?h"
    and n2: "get_view scenario_no_value 2 (view_url scenario_no_value ?a) = Responds ?img"
    and n3: "publication_fails (post_storage scenario_no_value 2 (content ?img) (filename ?a))"
    by (simp_all add: scenario_no_value_def scenario_def respond_def publication_fails_def
                      published_url_def)
  from publication_failure_falls_back [OF t d1 h2 h3 history_done_artifact d2 i2 d3]
       publication_failure_falls_back [OF t n1 h2 h3 history_done_artifact n2 i2 n3]
  show ?thesis by simp
qed

text \<open>
  Claim C7. When the storage service answers 200 with a JSON object whose \<open>value\<close> is a
  non-empty string, \<open>upload_to_remote_server\<close> returns that string and the response to
  the caller carries it unchanged as its address.
\<close>

theorem published_url_returned:
  assumes "elapsed < max_wait"
    and "get_history w k (COMFYUI_URL w @ ''/history/'' @ pid) = Responds h"
    and "status_code h = 200"
    and "json_of h = Some history_data"
    and "find_artifact pid history_data = Inr (Some a)"
    and "get_view w k (view_url w a) = Responds img"
    and "status_code img = 200"
    and "post_storage w k (content img) (filename a) = Responds stored"
    and "status_code stored = 200"
    and "json_of stored = Some (JObj body)"
    and "map_of body ''value'' = Some (JStr url)"
    and "url \<noteq> []"
  shows "upload_to_remote_server w k (content img) (filename a) = Inr (JStr url)
     \<and> poll_loop w pid k elapsed =
           Inr \<lparr>success = True, image_url = Some url, prompt_id = Some pid, error = None\<rparr>"
proof -
  from assms(8-12) have up: "upload_to_remote_server w k (content img) (filename a) = Inr (JStr url)"
    by (simp add: upload_to_remote_server_def json_body_def thn_def)
  with assms(6,7) have "retrieve_and_publish w pid k a =
      Inr (Some \<lparr>success = True, image_url = Some url, prompt_id = Some pid, error = None\<rparr>)"
    by (simp add: retrieve_downloaded thn_def make_response_def)
  with assms(2-5) have "poll_body w pid k =
      Inr (Some \<lparr>success = True, image_url = Some url, prompt_id = Some pid, error = None\<rparr>)"
    by (simp add: poll_body_found)
  with assms(1) up show ?thesis
    by (simp add: poll_loop_return)
qed

theorem published_url_returned_witness:
  "upload_to_remote_server scenario 2 ''PNG'' (JStr ''out.png'') = Inr (JStr ''https://cdn/x.png'')
   \<and> poll_loop scenario ''abc'' 2 8 =
     Inr \<lparr>success = True, image_url = Some ''https://cdn/x.png'',
          prompt_id = Some ''abc'', error = None\<rparr>"
proof -
  let ?h = "\<lparr>status_code = 200, body_text = [], content = [], json_of = Some history_done\<rparr>"
  let ?img = "\<lparr>status_code = 200, body_text = ''PNG'', content = ''PNG'', json_of = None\<rparr>"
  let ?a = "\<lparr>filename = JStr ''out.png'', subfolder = JStr [], folder_type = JStr ''output''\<rparr>"
  let ?body = "[(''value'', JStr ''https://cdn/x.png'')]"
  let ?stored = "\<lparr>status_code = 200, body_text = [], content = [], json_of = Some (JObj ?body)\<rparr>"
  have t: "(8::nat) < max_wait" by (simp add: max_wait_def)
  have h2: "status_code ?h = 200" and h3: "json_of ?h = Some history_done"
    and i2: "status_code ?img = 200" and s2: "status_code ?stored = 200"
    and s3: "json_of ?stored = Some (JObj ?body)"
    and s4: "map_of ?body ''value'' = Some (JStr ''https://cdn/x.png'')"
    and s5: "''https://cdn/x.png'' \<noteq> []" by simp_all
  have d1: "get_history scenario 2 (COMFYUI_URL scenario @ ''/history/'' @ ''abc'') = Responds ?h"
    and d2: "get_view scenario 2 (view_url scenario ?a) = Responds ?img"
    and d3: "post_storage scenario 2 (content ?img) (filename ?a) = Responds ?stored"
    by (simp_all add: scenario_def respond_def)
  from published_url_returned [OF t d1 h2 h3 history_done_artifact d2 i2 d3 s2 s3 s4 s5]
  show ?thesis by simp
qed

text \<open>
  Claim C9. A storage answer with status 200 whose \<open>value\<close> is the empty string is
  treated like one without the field: in both cases \<open>upload_to_remote_server\<close> raises
  the exception of line 153, and the caller of the download that preceded it answers
  with the proxy address.
\<close>

theorem empty_value_is_failure:
  assumes "post_storage w k image_data name = Responds stored"
    and "status_code stored = 200"
    and "json_of stored = Some (JObj body)"
    and "map_of body ''value'' = Some (JStr []) \<or> map_of body ''value'' = None"
  shows "upload_to_remote_server w k image_data name = Inl (NoUrlInResponse (JObj body))
     \<and> (get_view w k (view_url w a) = Responds img \<and> status_code img = 200
          \<and> content img = image_data \<and> filename a = name \<longrightarrow>
        retrieve_and_publish w pid k a =
          Inr (Some \<lparr>success = True, image_url = Some (proxy_url w a),
                     prompt_id = Some pid, error = None\<rparr>))"
proof -
  from assms have up: "upload_to_remote_server w k image_data name = Inl (NoUrlInResponse (JObj body))"
    by (auto simp: upload_to_remote_server_def json_body_def thn_def)
  then show ?thesis
    by (auto simp: retrieve_downloaded thn_def)
qed

theorem empty_value_is_failure_witness:
  "upload_to_remote_server scenario_empty_value 2 ''PNG'' (JStr ''out.png'')
     = Inl (NoUrlInResponse (JObj [(''value'', JStr [])]))
   \<and> upload_to_remote_server scenario_no_value 2 ''PNG'' (JStr ''out.png'')
     = Inl (NoUrlInResponse (JObj [(''code'', JInt 0)]))
   \<and> retrieve_and_publish scenario_empty_value ''abc'' 2
        \<lparr>filename = JStr ''out.png'', subfolder = JStr [], folder_type = JStr ''output''\<rparr>
     = Inr (Some \<lparr>success = True,
                  image_url = Some ''http://localhost:8080/api/image/out.png?type=output'',
                  prompt_id = Some ''abc'', error = None\<rparr>)"
proof -
  let ?img = "\<lparr>status_code = 200, body_text = ''PNG'', content = ''PNG'', json_of = None\<rparr>"
  let ?a = "\<lparr>filename = JStr ''out.png'', subfolder = JStr [], folder_type = JStr ''output''\<rparr>"
  let ?e = "\<lparr>status_code = 200, body_text = [], content = [], json_of = Some (JObj [(''value'', JStr [])])\<rparr>"
  let ?n = "\<lparr>status_code = 200, body_text = [], content = [], json_of = Some (JObj [(''code'', JInt 0)])\<rparr>"
  have e1: "post_storage scenario_empty_value 2 ''PNG'' (JStr ''out.png'') = Responds ?e"
    by (simp add: scenario_empty_value_def scenario_def respond_def)
  have n1: "post_storage scenario_no_value 2 ''PNG'' (JStr ''out.png'') = Responds ?n"
    by (simp add: scenario_no_value_def scenario_def respond_def)
  have e2: "status_code ?e = 200" and e3: "json_of ?e = Some (JObj [(''value'', JStr [])])"
    and e4: "map_of [(''value'', JStr [])] ''value'' = Some (JStr []) \<or> map_of [(''value'', JStr [])] ''value'' = None"
    and n2: "status_code ?n = 200" and n3: "json_of ?n = Some (JObj [(''code'', JInt 0)])"
    and n4: "map_of [(''code'', JInt 0)] ''value'' = Some (JStr []) \<or> map_of [(''code'', JInt 0)] ''value'' = None"
    by simp_all
  have v: "get_view scenario_empty_value 2 (view_url scenario_empty_value ?a) = Responds ?img"
    by (simp add: scenario_empty_value_def scenario_def respond_def)
  have p: "proxy_url scenario_empty_value ?a = ''http://localhost:8080/api/image/out.png?type=output''"
    by (simp add: proxy_url_def)
  from empty_value_is_failure [OF e1 e2 e3 e4, of ?a ?img "''abc''"]
       empty_value_is_failure [OF n1 n2 n3 n4, of ?a ?img "''abc''"] v p
  show ?thesis by simp
qed

end
